theory Spec2Isabelle
  imports Main "HOL-Library.Sublist"
begin

section \<open>Python strings\<close>

text \<open>
  A Python \<open>str\<close> is a sequence of Unicode code points and \<open>len\<close> counts code points,
  so a text is modelled as a list of code points (natural numbers). ASCII literals of
  the source are written through \<open>str\<close>.
\<close>

type_synonym codepoint = nat
type_synonym pystr = "codepoint list"

definition str :: "string \<Rightarrow> pystr" where
  "str s = map of_char s"

text \<open>
  \<open>str.strip()\<close>, \<open>str.isspace()\<close> and the class \<open>\s\<close> of a \<open>str\<close> pattern share one
  predicate (CPython's \<open>Py_UNICODE_ISSPACE\<close>): the ASCII controls 9-13 and 28-31, the
  space, and the Unicode characters of bidirectional type WS, B or S.
\<close>

definition isspace :: "codepoint \<Rightarrow> bool" where
  "isspace c \<longleftrightarrow>
     (9 \<le> c \<and> c \<le> 13) \<or> (28 \<le> c \<and> c \<le> 32) \<or> c = 133 \<or> c = 160 \<or> c = 5760 \<or>
     (8192 \<le> c \<and> c \<le> 8202) \<or> c = 8232 \<or> c = 8233 \<or> c = 8239 \<or> c = 8287 \<or> c = 12288"

definition strip :: "pystr \<Rightarrow> pystr" where
  "strip s = rev (dropWhile isspace (rev (dropWhile isspace s)))"

text \<open>The characters \<open>.\<close>, \<open>!\<close> and \<open>?\<close> of the class \<open>[.!?]\<close>, the comma and the space.\<close>

definition sentence_end :: "codepoint \<Rightarrow> bool" where
  "sentence_end c \<longleftrightarrow> c = 46 \<or> c = 33 \<or> c = 63"

definition comma :: codepoint where
  "comma = 44"

definition space :: codepoint where
  "space = 32"

section \<open>The two regular-expression splits\<close>

text \<open>
  \<open>re.split(r'(?<=[.!?])\s+', s)\<close>: scanning from the left, a separator starts at a
  whitespace character whose predecessor in \<open>s\<close> is one of \<open>.!?\<close> and extends over the
  whole run of whitespace (the \<open>+\<close> is greedy); the pieces between the separators are
  returned. \<open>acc\<close> is the current piece, reversed: its head is the predecessor of the
  next character, and it is empty only at the start of \<open>s\<close> or just behind a separator,
  where the look-behind cannot hold.
\<close>

function split_sentences_from :: "pystr \<Rightarrow> pystr \<Rightarrow> pystr list" where
  "split_sentences_from acc [] = [rev acc]"
| "split_sentences_from acc (c # cs) =
     (if isspace c \<and> acc \<noteq> [] \<and> sentence_end (hd acc)
      then rev acc # split_sentences_from [] (dropWhile isspace cs)
      else split_sentences_from (c # acc) cs)"
  by pat_completeness auto
termination
  by (relation "measure (\<lambda>(acc, s). length s)")
     (auto simp: less_Suc_eq_le length_dropWhile_le)

definition split_sentences :: "pystr \<Rightarrow> pystr list" where
  "split_sentences s = split_sentences_from [] s"

text \<open>
  \<open>re.split(r',\s*', sentence)\<close>: every comma is a separator, together with the
  whitespace that follows it; the comma itself is not part of any piece.
\<close>

function split_commas_from :: "pystr \<Rightarrow> pystr \<Rightarrow> pystr list" where
  "split_commas_from acc [] = [rev acc]"
| "split_commas_from acc (c # cs) =
     (if c = comma
      then rev acc # split_commas_from [] (dropWhile isspace cs)
      else split_commas_from (c # acc) cs)"
  by pat_completeness auto
termination
  by (relation "measure (\<lambda>(acc, s). length s)")
     (auto simp: less_Suc_eq_le length_dropWhile_le)

definition split_commas :: "pystr \<Rightarrow> pystr list" where
  "split_commas s = split_commas_from [] s"

section \<open>The chunker\<close>

text \<open>
  The loop of \<open>split_text_into_chunks\<close> updates two variables, the list \<open>chunks\<close> and
  the string \<open>current_chunk\<close>; \<open>chunk_step\<close> is one iteration of its body. An empty
  string is falsy, so \<open>if current_chunk:\<close> is the test \<open>current_chunk \<noteq> []\<close>. In the
  branch of an over-long sentence the source assigns nothing to \<open>current_chunk\<close>.
\<close>

definition flush :: "pystr list \<Rightarrow> pystr \<Rightarrow> pystr list" where
  "flush chunks current_chunk =
     (if current_chunk \<noteq> [] then chunks @ [current_chunk] else chunks)"

definition append_parts :: "int \<Rightarrow> pystr list \<Rightarrow> pystr list \<Rightarrow> pystr list" where
  "append_parts max_chars chunks parts =
     foldl (\<lambda>chunks part.
              if int (length part) \<le> max_chars then chunks @ [strip part]
              else chunks @ [strip part])
       chunks parts"

definition chunk_step :: "int \<Rightarrow> pystr list \<times> pystr \<Rightarrow> pystr \<Rightarrow> pystr list \<times> pystr" where
  "chunk_step max_chars st sentence =
     (case st of (chunks, current_chunk) \<Rightarrow>
        if int (length current_chunk) + int (length sentence) + 1 \<le> max_chars
        then (chunks, strip (current_chunk @ [space] @ sentence))
        else
          (let chunks = flush chunks current_chunk
           in if int (length sentence) > max_chars
              then (append_parts max_chars chunks (split_commas sentence), current_chunk)
              else (chunks, sentence)))"

definition chunk_loop :: "int \<Rightarrow> pystr list \<Rightarrow> pystr list \<times> pystr" where
  "chunk_loop max_chars sentences = foldl (chunk_step max_chars) ([], []) sentences"

text \<open>
  \<open>collected_chunks\<close> is the value of \<open>chunks\<close> when the \<open>return\<close> statement is reached:
  the list built by the loop, with the last \<open>current_chunk\<close> appended if it is not empty.
\<close>

definition collected_chunks :: "pystr \<Rightarrow> int \<Rightarrow> pystr list" where
  "collected_chunks text max_chars =
     (let sentences = split_sentences (strip text);
          (chunks, current_chunk) = chunk_loop max_chars sentences
      in flush chunks current_chunk)"

definition split_text_into_chunks :: "pystr \<Rightarrow> int \<Rightarrow> pystr list" where
  "split_text_into_chunks text max_chars =
     (let chunks = collected_chunks text max_chars
      in if chunks \<noteq> [] then chunks else [text])"






section \<open>The model holder\<close>

text \<open>
  Waveforms are tensors of shape (1, n): one channel of n samples. The server creates
  zero samples and concatenates; it never computes with sample values, which are kept as
  numbers. An exception is a value: \<open>AttributeError\<close>, \<open>TypeError\<close> and \<open>OverflowError\<close> are
  raised by the interpreter, \<open>Raised msg\<close> by the libraries (model loading, synthesis,
  file output).
\<close>

type_synonym waveform = "int list"

datatype exn = AttributeError | TypeError | OverflowError | Raised string

record tts_model =
  sr :: nat
  generate :: "pystr \<Rightarrow> exn + waveform"

text \<open>The module globals \<open>tts\<close> and \<open>device\<close>, both \<open>None\<close> when the module is loaded.\<close>

record globals =
  tts :: "tts_model option"
  device :: "string option"

definition initial_globals :: globals where
  "initial_globals = \<lparr>tts = None, device = None\<rparr>"

text \<open>
  What the server asks of its surroundings during one call: whether the accelerator is
  there, what \<open>ChatterboxTurboTTS.from_pretrained\<close> does, the name of the temporary file
  and whether creating and writing it fails. Module imports are taken to succeed and
  memory to suffice, and the messages printed to the error stream are left out.
\<close>

record runtime =
  mps_available :: bool
  from_pretrained :: "string \<Rightarrow> exn + tts_model"
  temp_name :: string
  save_error :: "exn option"

text \<open>
  \<open>load_model\<close> returns the exception it raises, if any, with the globals as it leaves
  them: \<open>device\<close> is assigned before \<open>from_pretrained\<close> is called.
\<close>

definition load_model :: "runtime \<Rightarrow> globals \<Rightarrow> exn option \<times> globals" where
  "load_model rt g =
     (if tts g \<noteq> None then (None, g)
      else
        (let d = (if mps_available rt then ''mps'' else ''cpu'');
             g = g\<lparr>device := Some d\<rparr>
         in case from_pretrained rt d of
              Inl e \<Rightarrow> (Some e, g)
            | Inr m \<Rightarrow> (None, g\<lparr>tts := Some m\<rparr>)))"

section \<open>The audio assembler\<close>

text \<open>
  \<open>int(0.2 * tts.sr)\<close> is computed in double precision. The sample rate, an integer, is
  converted to a double first: it is rounded to 53 significant bits, ties to even, and
  the conversion raises \<open>OverflowError\<close> when the rounded value does not fit a double, that
  is when it reaches \<open>2^1024\<close>. The literal \<open>0.2\<close> is the double \<open>3602879701896397 / 2^54\<close>;
  the product of the two doubles is rounded to 53 significant bits in the same way, and
  \<open>int\<close> truncates it. \<open>round_double n\<close> rounds the natural number \<open>n\<close> so; the scale \<open>2^54\<close>
  of the literal is divided out at the end.
\<close>

fun bit_length :: "nat \<Rightarrow> nat" where
  "bit_length n = (if n = 0 then 0 else Suc (bit_length (n div 2)))"

definition round_double :: "nat \<Rightarrow> nat" where
  "round_double n =
     (let b = bit_length n
      in if b \<le> 53 then n
         else
           (let sh = b - 53;
                q = n div 2 ^ sh;
                r = n mod 2 ^ sh;
                half = 2 ^ (sh - 1)
            in (if r > half \<or> (r = half \<and> odd q) then q + 1 else q) * 2 ^ sh))"

definition float_overflow :: "nat \<Rightarrow> bool" where
  "float_overflow n \<longleftrightarrow> 2 ^ 1024 \<le> round_double n"

text \<open>The value of \<open>int(0.2 * sample_rate)\<close> when the conversion of the rate does not raise.\<close>

definition silence_samples :: "nat \<Rightarrow> nat" where
  "silence_samples sample_rate =
     round_double (3602879701896397 * round_double sample_rate) div 2 ^ 54"

text \<open>
  The loop over \<open>enumerate(audio_segments)\<close>: \<open>i\<close> is the index of the next segment and
  \<open>n\<close> is \<open>len(audio_segments)\<close>.
\<close>

fun combine_from :: "nat \<Rightarrow> nat \<Rightarrow> waveform list \<Rightarrow> waveform \<Rightarrow> waveform list" where
  "combine_from i n [] silence = []"
| "combine_from i n (segment # rest) silence =
     (if int i < int n - 1 then [segment, silence] else [segment])
       @ combine_from (Suc i) n rest silence"

definition combined_segments :: "waveform list \<Rightarrow> waveform \<Rightarrow> waveform list" where
  "combined_segments audio_segments silence =
     combine_from 0 (length audio_segments) audio_segments silence"

text \<open>\<open>torch.cat(combined_segments, dim=1)\<close> with the silence of \<open>torch.zeros\<close>.\<close>

definition combined_audio :: "waveform list \<Rightarrow> nat \<Rightarrow> waveform" where
  "combined_audio audio_segments sample_rate =
     concat (combined_segments audio_segments (replicate (silence_samples sample_rate) 0))"

section \<open>The request handlers\<close>

text \<open>
  The body of a \<open>/speak\<close> request is a JSON object; \<open>data.get\<close> reads two of its keys,
  each of which may be absent. The values here are null, booleans, integers and
  strings.
\<close>

datatype jval = JNull | JBool bool | JInt int | JStr pystr

record speak_request =
  text_field :: "jval option"
  max_chunk_size_field :: "jval option"

fun truthy :: "jval \<Rightarrow> bool" where
  "truthy JNull = False"
| "truthy (JBool b) = b"
| "truthy (JInt n) = (n \<noteq> 0)"
| "truthy (JStr s) = (s \<noteq> [])"

text \<open>
  \<open>split_text_into_chunks\<close> on untyped arguments: \<open>text.strip()\<close> exists only for a
  string, and the first comparison with \<open>max_chars\<close>, which every call reaches, needs a
  number (a boolean counts as 0 or 1).
\<close>

fun call_split_text_into_chunks :: "jval \<Rightarrow> jval \<Rightarrow> exn + pystr list" where
  "call_split_text_into_chunks (JStr t) (JInt n) = Inr (split_text_into_chunks t n)"
| "call_split_text_into_chunks (JStr t) (JBool b) = Inr (split_text_into_chunks t (if b then 1 else 0))"
| "call_split_text_into_chunks (JStr t) _ = Inl TypeError"
| "call_split_text_into_chunks _ _ = Inl AttributeError"

text \<open>
  The synthesis loop: a chunk that is empty after \<open>strip\<close> is skipped, the first
  exception ends the loop. With \<open>tts\<close> still \<open>None\<close> the call \<open>tts.generate\<close> is an
  \<open>AttributeError\<close>.
\<close>

fun generate_all :: "tts_model option \<Rightarrow> pystr list \<Rightarrow> exn + waveform list" where
  "generate_all model [] = Inr []"
| "generate_all model (chunk # chunks) =
     (if strip chunk \<noteq> []
      then (case (case model of None \<Rightarrow> Inl AttributeError | Some m \<Rightarrow> generate m chunk) of
              Inl e \<Rightarrow> Inl e
            | Inr wav \<Rightarrow>
                (case generate_all model chunks of
                   Inl e \<Rightarrow> Inl e
                 | Inr audio_segments \<Rightarrow> Inr (wav # audio_segments)))
      else generate_all model chunks)"

datatype body =
    SpeakResult string nat nat
  | ErrorText string
  | ErrorExn exn
  | HealthStatus bool "string option"

datatype reply = Reply nat body | Uncaught exn

text \<open>
  The result of a handler: the reply, the globals afterwards, and the audio files
  written, each with its path, waveform and sample rate.
\<close>

record outcome =
  reply :: reply
  state :: globals
  written :: "(string \<times> waveform \<times> nat) list"

text \<open>
  The block under \<open>try\<close>: an exception (\<open>Inl\<close>), or a reply and the files written. The
  silence is computed behind the test for an empty \<open>audio_segments\<close>, where \<open>0.2 * tts.sr\<close>
  raises for a sample rate too large for a double.
\<close>

definition speak_try ::
  "runtime \<Rightarrow> tts_model option \<Rightarrow> jval \<Rightarrow> jval \<Rightarrow> exn + reply \<times> (string \<times> waveform \<times> nat) list"
where
  "speak_try rt model text max_chunk_size =
     (case call_split_text_into_chunks text max_chunk_size of
        Inl e \<Rightarrow> Inl e
      | Inr chunks \<Rightarrow>
          (case generate_all model chunks of
             Inl e \<Rightarrow> Inl e
           | Inr audio_segments \<Rightarrow>
               if audio_segments = [] then Inr (Reply 500 (ErrorText ''No audio generated''), [])
               else
                 (case model of
                    None \<Rightarrow> Inl AttributeError
                  | Some m \<Rightarrow>
                      if float_overflow (sr m) then Inl OverflowError
                      else
                        (case save_error rt of
                           Some e \<Rightarrow> Inl e
                         | None \<Rightarrow>
                             Inr (Reply 200 (SpeakResult (temp_name rt) (sr m) (length chunks)),
                                  [(temp_name rt, combined_audio audio_segments (sr m), sr m)])))))"

text \<open>\<open>data.get("text", "")\<close> and \<open>data.get("max_chunk_size", 200)\<close>.\<close>

definition requested_text :: "speak_request \<Rightarrow> jval" where
  "requested_text req = (case text_field req of None \<Rightarrow> JStr [] | Some v \<Rightarrow> v)"

definition requested_max :: "speak_request \<Rightarrow> jval" where
  "requested_max req = (case max_chunk_size_field req of None \<Rightarrow> JInt 200 | Some v \<Rightarrow> v)"

text \<open>
  The handler of \<open>/speak\<close>. An exception of \<open>load_model\<close> is raised outside the \<open>try\<close>
  block and leaves the handler uncaught.
\<close>

definition speak :: "runtime \<Rightarrow> globals \<Rightarrow> speak_request \<Rightarrow> outcome" where
  "speak rt g req =
     (case (if tts g = None then load_model rt g else (None, g)) of
        (Some e, g) \<Rightarrow> \<lparr>reply = Uncaught e, state = g, written = []\<rparr>
      | (None, g) \<Rightarrow>
          (let text = requested_text req;
               max_chunk_size = requested_max req
           in if \<not> truthy text
              then \<lparr>reply = Reply 400 (ErrorText ''No text provided''), state = g, written = []\<rparr>
              else
                (case speak_try rt (tts g) text max_chunk_size of
                   Inl e \<Rightarrow> \<lparr>reply = Reply 500 (ErrorExn e), state = g, written = []\<rparr>
                 | Inr (r, files) \<Rightarrow> \<lparr>reply = r, state = g, written = files\<rparr>)))"

definition health :: "globals \<Rightarrow> outcome" where
  "health g = \<lparr>reply = Reply 200 (HealthStatus (tts g \<noteq> None) (device g)), state = g, written = []\<rparr>"

text \<open>
  The life of the process after start-up: a sequence of calls, each with the
  surroundings it meets. \<open>main\<close> calls \<open>load_model\<close> itself; \<open>/shutdown\<close> ends the process,
  so nothing behind it is served.
\<close>

datatype call = CallLoadModel | CallHealth | CallSpeak speak_request | CallShutdown

fun serve :: "globals \<Rightarrow> (runtime \<times> call) list \<Rightarrow> globals" where
  "serve g [] = g"
| "serve g ((rt, CallLoadModel) # calls) = serve (snd (load_model rt g)) calls"
| "serve g ((rt, CallHealth) # calls) = serve (state (health g)) calls"
| "serve g ((rt, CallSpeak req) # calls) = serve (state (speak rt g req)) calls"
| "serve g ((rt, CallShutdown) # calls) = g"

text \<open>
  Surroundings for the concrete runs below: a model with the sample rate 24000 whose
  synthesis always succeeds, and a run-time without accelerator in which loading and
  saving succeed.
\<close>

definition example_model :: tts_model where
  "example_model = \<lparr>sr = 24000, generate = (\<lambda>chunk. Inr (replicate (length chunk) 1))\<rparr>"

definition example_runtime :: runtime where
  "example_runtime =
     \<lparr>mps_available = False, from_pretrained = (\<lambda>d. Inr example_model),
      temp_name = ''/tmp/tmp0.wav'', save_error = None\<rparr>"

definition loaded_globals :: globals where
  "loaded_globals = \<lparr>tts = Some example_model, device = Some ''cpu''\<rparr>"

section \<open>Properties of the chunker\<close>

lemma append_parts_eq: "append_parts max_chars chunks parts = chunks @ map strip parts"
  unfolding append_parts_def
  by (induction parts arbitrary: chunks) simp_all





lemma isspace_space: "isspace space"
  by (simp add: isspace_def space_def)







lemma chunk_step_long:
  assumes "max_chars < int (length sentence)"
  shows "chunk_step max_chars (chunks, cur) sentence =
           (flush chunks cur @ map strip (split_commas sentence), cur)"
proof -
  have "\<not> int (length cur) + int (length sentence) + 1 \<le> max_chars"
    using assms by simp
  then show ?thesis
    using assms by (simp add: chunk_step_def append_parts_eq)
qed











text \<open>The definitions that a concrete run of the chunker unfolds.\<close>

lemmas chunker_eval =
  split_text_into_chunks_def collected_chunks_def str_def split_sentences_def strip_def
  isspace_def sentence_end_def chunk_loop_def chunk_step_def flush_def append_parts_def
  split_commas_def comma_def space_def Let_def




text \<open>
  C3. The source at two inputs. After an over-long sentence \<open>current_chunk\<close> still holds
  the chunk that was appended before it, so \<open>Hi.\<close> comes out a second time, behind the
  sentence that follows it in the text; and a comma at the start of an over-long
  sentence gives an empty chunk.
\<close>

theorem repeated_chunk:
  "split_text_into_chunks (str ''Hi. Aaaaaaaaaaaa. Bye.'') 10
     = [str ''Hi.'', str ''Aaaaaaaaaaaa.'', str ''Hi. Bye.''] \<and>
   split_text_into_chunks (str '',aaaa'') 3 = [str '''', str ''aaaa'']"
  by (simp add: chunker_eval)

lemma strip_all_space:
  assumes "\<forall>c\<in>set s. isspace c"
  shows "strip s = []"
proof -
  have blank: "dropWhile isspace s = []"
    using assms by simp
  show ?thesis
    unfolding strip_def blank by simp
qed

lemma collected_of_blank:
  assumes "0 \<le> max_chars" and "\<forall>c\<in>set s. isspace c"
  shows "collected_chunks s max_chars = []"
proof -
  have s: "strip s = []"
    using assms(2) by (rule strip_all_space)
  have sp: "strip [space] = []"
    using isspace_space by (simp add: strip_def)
  show ?thesis
    using assms(1) sp
    by (simp add: collected_chunks_def s split_sentences_def chunk_loop_def chunk_step_def
                  flush_def)
qed

text \<open>
  C4, as amended. If the loop produces no chunks, the result is the single-element list
  holding the original text as it was passed, untrimmed; this is the case for every
  empty or whitespace-only text when \<open>max_chars\<close> is not negative, and
  \<open>split_text_into_chunks("", 200)\<close> is \<open>[""]\<close>.
\<close>

theorem fallback_returns_text:
  "(collected_chunks text max_chars = [] \<longrightarrow> split_text_into_chunks text max_chars = [text]) \<and>
   (0 \<le> max_chars \<and> (\<forall>c\<in>set text. isspace c) \<longrightarrow> split_text_into_chunks text max_chars = [text]) \<and>
   split_text_into_chunks (str '''') 200 = [str '''']"
proof (intro conjI impI)
  assume "collected_chunks text max_chars = []"
  then show "split_text_into_chunks text max_chars = [text]"
    by (simp add: split_text_into_chunks_def)
next
  assume "0 \<le> max_chars \<and> (\<forall>c\<in>set text. isspace c)"
  then have "collected_chunks text max_chars = []"
    by (simp add: collected_of_blank)
  then show "split_text_into_chunks text max_chars = [text]"
    by (simp add: split_text_into_chunks_def)
next
  show "split_text_into_chunks (str '''') 200 = [str '''']"
    by (simp add: chunker_eval)
qed

theorem fallback_returns_text_witness:
  "collected_chunks (str ''  '') 200 = [] \<and> (0::int) \<le> 200 \<and> list_all isspace (str ''  '') \<and>
   split_text_into_chunks (str ''  '') 200 = [str ''  '']"
  using fallback_returns_text [of "str ''  ''" 200]
  by (simp add: chunker_eval)

text \<open>
  C4 as stated fails: for a text of two spaces the loop produces no chunks and the
  result holds the two spaces, not the trimmed (empty) text.
\<close>

theorem fallback_not_trimmed:
  "collected_chunks (str ''  '') 200 = [] \<and>
   split_text_into_chunks (str ''  '') 200 \<noteq> [strip (str ''  '')]"
  by (simp add: chunker_eval)

lemma chunk_loop_snoc:
  "chunk_loop max_chars (sentences @ [sentence])
     = chunk_step max_chars (chunk_loop max_chars sentences) sentence"
  by (simp add: chunk_loop_def)

text \<open>
  C5, as amended. Whatever sentences came before it, a sentence longer than \<open>max_chars\<close>
  is split at its commas (each with the whitespace behind it), and every part, with the
  whitespace at its ends stripped, is appended to the output as a chunk of its own,
  behind the pending chunk if there is one, whatever the length of the part; the
  example of the specification returns its two parts.
\<close>

theorem long_sentence_split_on_commas:
  "(max_chars < int (length sentence) \<longrightarrow>
      chunk_loop max_chars (sentences @ [sentence])
        = (case chunk_loop max_chars sentences of
             (chunks, current_chunk) \<Rightarrow>
               (flush chunks current_chunk @ map strip (split_commas sentence), current_chunk))) \<and>
   split_text_into_chunks
     (str ''A very long sentence with no punctuation that exceeds the limit by itself, truly'') 20
     = [str ''A very long sentence with no punctuation that exceeds the limit by itself'',
        str ''truly'']"
proof (intro conjI impI)
  assume "max_chars < int (length sentence)"
  then show "chunk_loop max_chars (sentences @ [sentence])
        = (case chunk_loop max_chars sentences of
             (chunks, current_chunk) \<Rightarrow>
               (flush chunks current_chunk @ map strip (split_commas sentence), current_chunk))"
    by (cases "chunk_loop max_chars sentences") (simp add: chunk_loop_snoc chunk_step_long)
next
  show "split_text_into_chunks
     (str ''A very long sentence with no punctuation that exceeds the limit by itself, truly'') 20
     = [str ''A very long sentence with no punctuation that exceeds the limit by itself'',
        str ''truly'']"
    by (simp add: chunker_eval)
qed

theorem long_sentence_split_on_commas_witness:
  "(3::int) < int (length (str ''aaaa ,bbbb'')) \<and>
   chunk_loop 3 ([] @ [str ''aaaa ,bbbb'']) = ([str ''aaaa'', str ''bbbb''], [])"
  using long_sentence_split_on_commas [of 3 "str ''aaaa ,bbbb''" "[]"]
  by (simp add: chunker_eval)

text \<open>
  C5 as stated fails: the first part of \<open>aaaa ,bbbb\<close> ends in a space, and the chunk
  appended for it does not.
\<close>

theorem part_is_trimmed:
  "(3::int) < int (length (str ''aaaa ,bbbb'')) \<and>
   split_commas (str ''aaaa ,bbbb'') = [str ''aaaa '', str ''bbbb''] \<and>
   split_text_into_chunks (str ''aaaa ,bbbb'') 3 = [str ''aaaa'', str ''bbbb''] \<and>
   split_text_into_chunks (str ''aaaa ,bbbb'') 3 \<noteq> split_commas (str ''aaaa ,bbbb'')"
  by (simp add: chunker_eval)

section \<open>Properties of the audio assembler\<close>

lemma combine_from_shift:
  "combine_from (Suc i) (Suc n) segments silence = combine_from i n segments silence"
  by (induction segments arbitrary: i) simp_all

lemma combined_segments_single: "combined_segments [a] silence = [a]"
  by (simp add: combined_segments_def)

lemma combined_segments_step:
  "combined_segments (a # b # rest) silence = a # silence # combined_segments (b # rest) silence"
proof -
  have "combine_from (Suc 0) (Suc (Suc (length rest))) (b # rest) silence
          = combine_from 0 (Suc (length rest)) (b # rest) silence"
    by (rule combine_from_shift)
  then show ?thesis
    by (simp add: combined_segments_def)
qed

lemma length_combined_segments:
  "segments \<noteq> [] \<Longrightarrow>
   length (concat (combined_segments segments silence))
     = sum_list (map length segments) + (length segments - 1) * length silence"
proof (induction segments rule: induct_list012)
  case 1
  then show ?case by simp
next
  case (2 a)
  show ?case by (simp add: combined_segments_single)
next
  case (3 a b rest)
  then show ?case
    by (simp add: combined_segments_step)
qed

lemma silence_samples_16000: "silence_samples 16000 = 3200"
  by (simp add: silence_samples_def round_double_def Let_def)

lemma combined_audio_single: "combined_audio [a] sample_rate = a"
  by (simp add: combined_audio_def combined_segments_single)

lemma combined_audio_step:
  "combined_audio (a # b # rest) sample_rate
     = a @ replicate (silence_samples sample_rate) 0 @ combined_audio (b # rest) sample_rate"
  by (simp add: combined_audio_def combined_segments_step)

lemma rate_16000_converts: "\<not> float_overflow 16000"
  by (simp add: float_overflow_def round_double_def Let_def)

lemma example_rate_converts: "\<not> float_overflow 24000"
  by (simp add: float_overflow_def round_double_def Let_def)

text \<open>
  The rate is rounded before it is multiplied: \<open>2^53 + 11\<close> converts to \<open>2^53 + 12\<close>, and
  \<open>int(0.2 * (2^53 + 11))\<close> is 1801439850948201.
\<close>

lemma silence_samples_rounds_rate: "silence_samples 9007199254741003 = 1801439850948201"
  by (simp add: silence_samples_def round_double_def Let_def)

text \<open>
  C6. For every sample rate that converts to a double: a single segment is left alone,
  and of two or more segments the first is followed by the \<open>int(0.2 * sr)\<close> zero samples
  of the silence and by the assembly of the rest, so the silence stands between every
  two adjacent segments, not before the first and not behind the last; the waveform of
  a non-empty sequence has the length of all its segments plus one silence for every
  segment but the last. At the sample rate 16000 the silence has 3200 samples, so two
  segments give \<open>seg_a\<close>, 3200 zeros and \<open>seg_b\<close>, of length \<open>len(seg_a) + 3200 + len(seg_b)\<close>.
\<close>

theorem silence_between_segments:
  "(\<not> float_overflow sample_rate \<longrightarrow>
      combined_audio [a] sample_rate = a \<and>
      combined_audio (a # b # rest) sample_rate
        = a @ replicate (silence_samples sample_rate) 0 @ combined_audio (b # rest) sample_rate \<and>
      (audio_segments \<noteq> [] \<longrightarrow>
         length (combined_audio audio_segments sample_rate)
           = sum_list (map length audio_segments)
               + (length audio_segments - 1) * silence_samples sample_rate)) \<and>
   \<not> float_overflow 16000 \<and>
   silence_samples 16000 = 3200 \<and>
   combined_audio [seg_a, seg_b] 16000 = seg_a @ replicate 3200 0 @ seg_b \<and>
   length (combined_audio [seg_a, seg_b] 16000) = length seg_a + 3200 + length seg_b"
proof (intro conjI impI)
  show "combined_audio [a] sample_rate = a"
    by (rule combined_audio_single)
next
  show "combined_audio (a # b # rest) sample_rate
        = a @ replicate (silence_samples sample_rate) 0 @ combined_audio (b # rest) sample_rate"
    by (rule combined_audio_step)
next
  assume "audio_segments \<noteq> []"
  then show "length (combined_audio audio_segments sample_rate)
           = sum_list (map length audio_segments)
               + (length audio_segments - 1) * silence_samples sample_rate"
    by (simp add: combined_audio_def length_combined_segments)
next
  show "\<not> float_overflow 16000"
    by (rule rate_16000_converts)
next
  show "silence_samples 16000 = 3200"
    by (rule silence_samples_16000)
next
  show "combined_audio [seg_a, seg_b] 16000 = seg_a @ replicate 3200 0 @ seg_b"
    by (simp add: combined_audio_step combined_audio_single silence_samples_16000)
next
  show "length (combined_audio [seg_a, seg_b] 16000) = length seg_a + 3200 + length seg_b"
    by (simp add: combined_audio_step combined_audio_single silence_samples_16000)
qed

theorem silence_between_segments_witness:
  "\<not> float_overflow 24000 \<and>
   [[1, 2], [3], [4, 5, 6]] \<noteq> ([] :: waveform list) \<and>
   silence_samples 24000 = 4800 \<and>
   combined_audio [[1, 2], [3], [4, 5, 6]] 24000
     = [1, 2] @ replicate 4800 0 @ [3] @ replicate 4800 0 @ [4, 5, 6] \<and>
   length (combined_audio [[1, 2], [3], [4, 5, 6]] 24000) = 6 + 2 * 4800"
proof -
  have rate: "silence_samples 24000 = 4800"
    by (simp add: silence_samples_def round_double_def Let_def)
  from silence_between_segments [of 24000 "[1, 2]" "[3]" "[[4, 5, 6]]" "[[1, 2], [3], [4, 5, 6]]"]
       silence_between_segments [of 24000 "[3]" "[4, 5, 6]" "[]"]
       silence_between_segments [of 24000 "[4, 5, 6]"]
       example_rate_converts rate
  show ?thesis
    by simp
qed

section \<open>The model holder is loaded once\<close>

lemma load_model_loaded: "tts g \<noteq> None \<Longrightarrow> load_model rt g = (None, g)"
  by (simp add: load_model_def)

lemma load_model_success: "load_model rt g = (None, g') \<Longrightarrow> tts g' \<noteq> None"
  by (auto simp: load_model_def Let_def split: if_splits sum.splits)

lemma state_speak_try:
  "state (speak rt g req) = snd (if tts g = None then load_model rt g else (None, g))"
  by (cases "if tts g = None then load_model rt g else (None, g)")
     (auto simp: speak_def Let_def split: option.splits sum.splits prod.splits)

lemma speak_keeps_loaded: "tts g \<noteq> None \<Longrightarrow> state (speak rt g req) = g"
  by (auto simp: state_speak_try)

lemma health_keeps: "state (health g) = g"
  by (simp add: health_def)

lemma serve_keeps_loaded: "tts g \<noteq> None \<Longrightarrow> serve g calls = g"
proof (induction g calls rule: serve.induct)
  case (1 g)
  show ?case by simp
next
  case (2 g rt calls)
  then show ?case by (simp add: load_model_loaded)
next
  case (3 g rt calls)
  then show ?case by (simp add: health_keeps)
next
  case (4 g rt req calls)
  then show ?case by (simp add: speak_keeps_loaded)
next
  case (5 g rt calls)
  show ?case by simp
qed

text \<open>
  C9. A call of \<open>load_model\<close> that returns leaves a model in \<open>tts\<close>; and once \<open>tts\<close> holds a
  model, \<open>load_model\<close> returns at its presence check without any effect, and neither it
  nor a handler nor any sequence of calls changes the two globals: the model and the
  device stay what the first successful load made them.
\<close>

theorem model_loaded_once:
  "(load_model rt g = (None, g') \<longrightarrow> tts g' \<noteq> None) \<and>
   (tts g \<noteq> None \<longrightarrow>
      load_model rt g = (None, g) \<and> state (speak rt g req) = g \<and> state (health g) = g \<and>
      serve g calls = g)"
  using load_model_success [of rt g g']
  by (simp add: load_model_loaded speak_keeps_loaded health_keeps serve_keeps_loaded)

theorem model_loaded_once_witness:
  "load_model example_runtime initial_globals = (None, loaded_globals) \<and>
   tts loaded_globals = Some example_model \<and>
   load_model example_runtime loaded_globals = (None, loaded_globals) \<and>
   serve loaded_globals
     [(example_runtime, CallSpeak \<lparr>text_field = Some (JStr (str ''Hi.'')), max_chunk_size_field = None\<rparr>),
      (example_runtime, CallLoadModel), (example_runtime, CallHealth)] = loaded_globals"
  using model_loaded_once [of example_runtime initial_globals loaded_globals]
        model_loaded_once [of example_runtime loaded_globals loaded_globals _
          "[(example_runtime, CallSpeak \<lparr>text_field = Some (JStr (str ''Hi.'')), max_chunk_size_field = None\<rparr>),
            (example_runtime, CallLoadModel), (example_runtime, CallHealth)]"]
  by (simp add: load_model_def example_runtime_def initial_globals_def loaded_globals_def Let_def)

section \<open>Properties of the speak handler\<close>

lemma requested_text_empty: "text_field req = Some (JStr []) \<Longrightarrow> \<not> truthy (requested_text req)"
  by (simp add: requested_text_def)

text \<open>
  C2, as amended. For a \<open>/speak\<close> request whose \<open>text\<close> is the empty string: when the model
  is loaded, the handler answers 400 with the error \<open>No text provided\<close>, loads nothing and
  leaves the globals and the file system as they are; when it is not loaded, the handler
  calls \<open>load_model\<close> before it looks at the text, so the answer 400 comes with the
  globals as the load left them (a model in \<open>tts\<close>), and an exception of the load leaves the
  handler instead of the answer.
\<close>

theorem empty_text_after_load:
  "text_field req = Some (JStr []) \<longrightarrow>
     (tts g \<noteq> None \<longrightarrow>
        speak rt g req
          = \<lparr>reply = Reply 400 (ErrorText ''No text provided''), state = g, written = []\<rparr>) \<and>
     (tts g = None \<longrightarrow>
        speak rt g req
          = (case load_model rt g of
               (Some e, g') \<Rightarrow> \<lparr>reply = Uncaught e, state = g', written = []\<rparr>
             | (None, g') \<Rightarrow>
                 \<lparr>reply = Reply 400 (ErrorText ''No text provided''), state = g', written = []\<rparr>))"
  by (auto simp: speak_def Let_def requested_text_empty split: prod.splits option.splits)

theorem empty_text_after_load_witness:
  "text_field \<lparr>text_field = Some (JStr []), max_chunk_size_field = None\<rparr> = Some (JStr []) \<and>
   tts loaded_globals = Some example_model \<and>
   speak example_runtime loaded_globals \<lparr>text_field = Some (JStr []), max_chunk_size_field = None\<rparr>
     = \<lparr>reply = Reply 400 (ErrorText ''No text provided''), state = loaded_globals, written = []\<rparr> \<and>
   tts initial_globals = None \<and>
   speak example_runtime initial_globals \<lparr>text_field = Some (JStr []), max_chunk_size_field = None\<rparr>
     = \<lparr>reply = Reply 400 (ErrorText ''No text provided''), state = loaded_globals, written = []\<rparr>"
  using empty_text_after_load
          [of "\<lparr>text_field = Some (JStr []), max_chunk_size_field = None\<rparr>" loaded_globals example_runtime]
        empty_text_after_load
          [of "\<lparr>text_field = Some (JStr []), max_chunk_size_field = None\<rparr>" initial_globals example_runtime]
  by (simp add: load_model_def example_runtime_def initial_globals_def loaded_globals_def Let_def)

text \<open>
  C2 as stated fails: in a process that has not loaded the model, a request with the
  empty text is answered 400, and the model has been loaded by then.
\<close>

theorem empty_text_loads_model:
  "text_field \<lparr>text_field = Some (JStr []), max_chunk_size_field = None\<rparr> = Some (JStr []) \<and>
   reply (speak example_runtime initial_globals \<lparr>text_field = Some (JStr []), max_chunk_size_field = None\<rparr>)
     = Reply 400 (ErrorText ''No text provided'') \<and>
   tts initial_globals = None \<and>
   tts (state (speak example_runtime initial_globals
                \<lparr>text_field = Some (JStr []), max_chunk_size_field = None\<rparr>)) = Some example_model \<and>
   state (speak example_runtime initial_globals \<lparr>text_field = Some (JStr []), max_chunk_size_field = None\<rparr>)
     \<noteq> initial_globals"
  by (simp add: speak_def requested_text_def load_model_def example_runtime_def
                initial_globals_def Let_def)

lemma generate_all_blank:
  "list_all (\<lambda>chunk. strip chunk = []) chunks \<Longrightarrow> generate_all model chunks = Inr []"
  by (induction chunks) simp_all

lemma generate_all_length:
  "generate_all model chunks = Inr audio_segments \<Longrightarrow>
   length audio_segments = length (filter (\<lambda>chunk. strip chunk \<noteq> []) chunks)"
  by (induction chunks arbitrary: audio_segments)
     (auto split: if_splits sum.splits option.splits)

text \<open>
  C7. When the model is there (loaded before, or by the request), the text is accepted
  and every chunk of it is empty after \<open>strip\<close>, no audio segment is synthesized and the
  handler answers 500 with the error \<open>No audio generated\<close>; no file is written and the
  globals are as the load left them.
\<close>

theorem no_audio_is_an_error:
  assumes "(if tts g = None then load_model rt g else (None, g)) = (None, g')"
    and "truthy (requested_text req)"
    and "call_split_text_into_chunks (requested_text req) (requested_max req) = Inr chunks"
    and "list_all (\<lambda>chunk. strip chunk = []) chunks"
  shows "generate_all (tts g') chunks = Inr [] \<and>
         speak rt g req
           = \<lparr>reply = Reply 500 (ErrorText ''No audio generated''), state = g', written = []\<rparr>"
proof -
  have none: "generate_all (tts g') chunks = Inr []"
    using assms(4) by (rule generate_all_blank)
  then have "speak_try rt (tts g') (requested_text req) (requested_max req)
               = Inr (Reply 500 (ErrorText ''No audio generated''), [])"
    using assms(3) by (simp add: speak_try_def)
  then show ?thesis
    using assms(1,2) none by (simp add: speak_def Let_def)
qed

theorem no_audio_is_an_error_witness:
  "truthy (JStr (str ''  '')) \<and>
   call_split_text_into_chunks (JStr (str ''  '')) (JInt 200) = Inr [str ''  ''] \<and>
   list_all (\<lambda>chunk. strip chunk = []) [str ''  ''] \<and>
   speak example_runtime loaded_globals \<lparr>text_field = Some (JStr (str ''  '')), max_chunk_size_field = None\<rparr>
     = \<lparr>reply = Reply 500 (ErrorText ''No audio generated''), state = loaded_globals, written = []\<rparr>"
  using no_audio_is_an_error
          [of loaded_globals example_runtime loaded_globals
              "\<lparr>text_field = Some (JStr (str ''  '')), max_chunk_size_field = None\<rparr>" "[str ''  '']"]
  by (simp add: requested_text_def requested_max_def loaded_globals_def chunker_eval)

lemma sr_example_model: "sr example_model = 24000"
  by (simp add: example_model_def)

lemma speak_try_success:
  assumes "speak_try rt model t m = Inr (Reply 200 (SpeakResult path rate n), files)"
  shows "\<exists>chunks audio_segments.
           call_split_text_into_chunks t m = Inr chunks \<and>
           generate_all model chunks = Inr audio_segments \<and>
           n = length chunks \<and>
           files = [(path, combined_audio audio_segments rate, rate)]"
  using assms
  by (auto simp: speak_try_def split: sum.splits if_splits option.splits)

text \<open>
  C10. Whenever \<open>/speak\<close> succeeds, the \<open>chunks\<close> field of its answer is the length of the
  list that \<open>split_text_into_chunks\<close> returned for the request, while the file holds one
  segment for each chunk that is not empty after \<open>strip\<close>, which is at most as many. The
  field can be the larger number: for the text \<open>,aaaa\<close> and the chunk size 3 the answer
  reports 2 chunks and the file holds a single segment.
\<close>

theorem chunks_field_counts_all_chunks:
  "(speak rt g req = \<lparr>reply = Reply 200 (SpeakResult path rate n), state = g', written = files\<rparr> \<longrightarrow>
      (\<exists>chunks audio_segments.
         call_split_text_into_chunks (requested_text req) (requested_max req) = Inr chunks \<and>
         generate_all (tts g') chunks = Inr audio_segments \<and>
         files = [(path, combined_audio audio_segments rate, rate)] \<and>
         n = length chunks \<and>
         length audio_segments = length (filter (\<lambda>chunk. strip chunk \<noteq> []) chunks) \<and>
         length audio_segments \<le> n)) \<and>
   speak example_runtime loaded_globals
       \<lparr>text_field = Some (JStr (str '',aaaa'')), max_chunk_size_field = Some (JInt 3)\<rparr>
     = \<lparr>reply = Reply 200 (SpeakResult ''/tmp/tmp0.wav'' 24000 2), state = loaded_globals,
        written = [(''/tmp/tmp0.wav'', combined_audio [[1, 1, 1, 1]] 24000, 24000)]\<rparr>"
proof (intro conjI impI)
  assume ok: "speak rt g req
                = \<lparr>reply = Reply 200 (SpeakResult path rate n), state = g', written = files\<rparr>"
  obtain r g1 where pre: "(if tts g = None then load_model rt g else (None, g)) = (r, g1)"
    by (cases "if tts g = None then load_model rt g else (None, g)")
  from ok pre have tried:
    "speak_try rt (tts g') (requested_text req) (requested_max req)
       = Inr (Reply 200 (SpeakResult path rate n), files)"
    by (auto simp: speak_def Let_def split: option.splits if_splits sum.splits prod.splits)
  from speak_try_success [OF tried] obtain chunks audio_segments where
    c: "call_split_text_into_chunks (requested_text req) (requested_max req) = Inr chunks" and
    a: "generate_all (tts g') chunks = Inr audio_segments" and
    n: "n = length chunks" and
    f: "files = [(path, combined_audio audio_segments rate, rate)]"
    by blast
  have len: "length audio_segments = length (filter (\<lambda>chunk. strip chunk \<noteq> []) chunks)"
    using a by (rule generate_all_length)
  then have "length audio_segments \<le> n"
    by (simp add: n)
  with c a n f len show
    "\<exists>chunks audio_segments.
         call_split_text_into_chunks (requested_text req) (requested_max req) = Inr chunks \<and>
         generate_all (tts g') chunks = Inr audio_segments \<and>
         files = [(path, combined_audio audio_segments rate, rate)] \<and>
         n = length chunks \<and>
         length audio_segments = length (filter (\<lambda>chunk. strip chunk \<noteq> []) chunks) \<and>
         length audio_segments \<le> n"
    by blast
next
  have chunks: "split_text_into_chunks (str '',aaaa'') 3 = [[], str ''aaaa'']"
    by (simp add: chunker_eval)
  have "strip [] = []" and "strip (str ''aaaa'') = str ''aaaa''"
    by (simp_all add: strip_def str_def isspace_def)
  then have segs: "generate_all (Some example_model) [[], str ''aaaa''] = Inr [[1, 1, 1, 1]]"
    by (simp add: example_model_def str_def)
  have "speak_try example_runtime (Some example_model) (JStr (str '',aaaa'')) (JInt 3)
          = Inr (Reply 200 (SpeakResult ''/tmp/tmp0.wav'' 24000 2),
                 [(''/tmp/tmp0.wav'', combined_audio [[1, 1, 1, 1]] 24000, 24000)])"
    by (simp add: speak_try_def chunks segs example_runtime_def sr_example_model
                  example_rate_converts
             del: generate_all.simps)
  then show "speak example_runtime loaded_globals
       \<lparr>text_field = Some (JStr (str '',aaaa'')), max_chunk_size_field = Some (JInt 3)\<rparr>
     = \<lparr>reply = Reply 200 (SpeakResult ''/tmp/tmp0.wav'' 24000 2), state = loaded_globals,
        written = [(''/tmp/tmp0.wav'', combined_audio [[1, 1, 1, 1]] 24000, 24000)]\<rparr>"
    by (simp add: speak_def requested_text_def requested_max_def loaded_globals_def Let_def
                  str_def)
qed

theorem chunks_field_counts_all_chunks_witness:
  "speak example_runtime loaded_globals
       \<lparr>text_field = Some (JStr (str ''Hello world. This is a test.'')),
        max_chunk_size_field = Some (JInt 15)\<rparr>
     = \<lparr>reply = Reply 200 (SpeakResult ''/tmp/tmp0.wav'' 24000 2), state = loaded_globals,
        written = [(''/tmp/tmp0.wav'',
                    combined_audio [replicate (length (str ''Hello world.'')) 1, replicate (length (str ''This is a test.'')) 1] 24000, 24000)]\<rparr> \<and>
   length (split_text_into_chunks (str ''Hello world. This is a test.'') 15) = 2"
proof -
  have chunks: "split_text_into_chunks (str ''Hello world. This is a test.'') 15
                  = [str ''Hello world.'', str ''This is a test.'']"
    by (simp add: chunker_eval)
  have "strip (str ''Hello world.'') \<noteq> []" and "strip (str ''This is a test.'') \<noteq> []"
    by (simp_all add: strip_def str_def isspace_def)
  then have segs: "generate_all (Some example_model) [str ''Hello world.'', str ''This is a test.'']
                     = Inr [replicate (length (str ''Hello world.'')) 1, replicate (length (str ''This is a test.'')) 1]"
    by (simp add: example_model_def str_def)
  have tried: "speak_try example_runtime (Some example_model)
            (JStr (str ''Hello world. This is a test.'')) (JInt 15)
          = Inr (Reply 200 (SpeakResult ''/tmp/tmp0.wav'' 24000 2),
                 [(''/tmp/tmp0.wav'', combined_audio [replicate (length (str ''Hello world.'')) 1, replicate (length (str ''This is a test.'')) 1] 24000, 24000)])"
    by (simp add: speak_try_def chunks segs example_runtime_def sr_example_model
                  example_rate_converts
             del: generate_all.simps)
  have run: "speak example_runtime loaded_globals
       \<lparr>text_field = Some (JStr (str ''Hello world. This is a test.'')),
        max_chunk_size_field = Some (JInt 15)\<rparr>
     = \<lparr>reply = Reply 200 (SpeakResult ''/tmp/tmp0.wav'' 24000 2), state = loaded_globals,
        written = [(''/tmp/tmp0.wav'',
                    combined_audio [replicate (length (str ''Hello world.'')) 1, replicate (length (str ''This is a test.'')) 1] 24000, 24000)]\<rparr>"
    using tried
    by (simp add: speak_def requested_text_def requested_max_def loaded_globals_def Let_def
                  str_def)
  from chunks_field_counts_all_chunks
         [of example_runtime loaded_globals
             "\<lparr>text_field = Some (JStr (str ''Hello world. This is a test.'')),
               max_chunk_size_field = Some (JInt 15)\<rparr>"
             "''/tmp/tmp0.wav''" 24000 2 loaded_globals
             "[(''/tmp/tmp0.wav'', combined_audio [replicate (length (str ''Hello world.'')) 1, replicate (length (str ''This is a test.'')) 1] 24000, 24000)]"]
       run chunks
  show ?thesis
    by (simp add: requested_text_def requested_max_def)
qed

end
